theory Spec2Isabelle
  imports Complex_Main
begin

section \<open>Numbers of the page\<close>

text \<open>
  The page \<^verbatim>\<open>app.py\<close> computes with Python floats. They are embedded as
  \<^typ>\<open>real\<close>: every arithmetic operation is exact, so the rounding error of a
  binary double is outside this development. Python integers are \<^typ>\<open>int\<close>.
\<close>

definition py_min :: "'a::linorder \<Rightarrow> 'a \<Rightarrow> 'a" where
  \<comment> \<open>Python's \<^verbatim>\<open>min(a, b)\<close>: the first argument unless the second is smaller.\<close>
  "py_min a b = (if b < a then b else a)"

definition py_max :: "'a::linorder \<Rightarrow> 'a \<Rightarrow> 'a" where
  \<comment> \<open>Python's \<^verbatim>\<open>max(a, b)\<close>: the first argument unless the second is larger.\<close>
  "py_max a b = (if a < b then b else a)"

definition np_clip :: "real \<Rightarrow> real \<Rightarrow> real \<Rightarrow> real" where
  \<comment> \<open>\<^verbatim>\<open>np.clip(x, lo, hi)\<close> is \<^verbatim>\<open>minimum(maximum(x, lo), hi)\<close>.\<close>
  "np_clip x lo hi = py_min (py_max x lo) hi"

definition round_half_even :: "real \<Rightarrow> int" where
  \<comment> \<open>Nearest integer, a tie going to the even neighbour (Python's rounding rule).\<close>
  "round_half_even y =
     (let f = \<lfloor>y\<rfloor>; d = y - of_int f
      in if d < 1 / 2 then f
         else if 1 / 2 < d then f + 1
         else if even f then f else f + 1)"

definition py_round :: "real \<Rightarrow> nat \<Rightarrow> real" where
  \<comment> \<open>\<^verbatim>\<open>round(x, ndigits)\<close> for a non-negative number of digits.\<close>
  "py_round x ndigits = of_int (round_half_even (x * 10 ^ ndigits)) / 10 ^ ndigits"

definition py_int :: "real \<Rightarrow> int" where
  \<comment> \<open>\<^verbatim>\<open>int(x)\<close> on a float truncates towards zero.\<close>
  "py_int x = (if 0 \<le> x then \<lfloor>x\<rfloor> else \<lceil>x\<rceil>)"

definition INTERVAL_SECONDS :: int where
  "INTERVAL_SECONDS = 30"

section \<open>Data synthesis\<close>

text \<open>
  \<^verbatim>\<open>generate_plausible_values\<close> asks the NumPy generator for three numbers. NumPy is
  not part of the repository, so the random source is the triple of values that the
  three calls hand back, in call order. \<open>valid_draws\<close> is what NumPy documents about
  them: a log-normal variate is positive, and \<^verbatim>\<open>uniform(low, high)\<close> lies in the
  half-open interval from \<open>low\<close> to \<open>high\<close>.
\<close>

record rng_draws =
  lognormal_draw :: real
  inv_prop_draw :: real
  cl_prop_draw :: real

definition uniform_range :: "real \<Rightarrow> real \<Rightarrow> real \<Rightarrow> bool" where
  "uniform_range low high u = (low \<le> u \<and> u < high)"

definition valid_draws :: "rng_draws \<Rightarrow> bool" where
  "valid_draws rng =
     (0 < lognormal_draw rng
      \<and> uniform_range (10 / 100) (60 / 100) (inv_prop_draw rng)
      \<and> uniform_range (30 / 100) (110 / 100) (cl_prop_draw rng))"

record snapshot =
  timestamp_utc :: string
  current_assets :: real
  current_liabilities :: real
  inventory :: real

text \<open>
  The second argument is the text of
  \<^verbatim>\<open>datetime.now(timezone.utc).isoformat(timespec="seconds")\<close>, the clock being
  outside the program.
\<close>

definition generate_plausible_values :: "rng_draws \<Rightarrow> string \<Rightarrow> snapshot" where
  "generate_plausible_values rng stamp =
     (let ca = lognormal_draw rng;
          ca = np_clip ca 50000 250000;
          inv_prop = inv_prop_draw rng;
          inv = inv_prop * ca;
          cl_prop = cl_prop_draw rng;
          cl = cl_prop * ca;
          inv = py_min inv ca;
          cl = py_max cl 1
      in \<lparr> timestamp_utc = stamp,
           current_assets = py_round ca 2,
           current_liabilities = py_round cl 2,
           inventory = py_round inv 2 \<rparr>)"

section \<open>The worksheet behind the page\<close>

text \<open>
  The Google Sheets service and the gspread client are not part of the repository
  either. A worksheet is the grid of the texts its cells display (row and column
  counted from 0, the empty text for a blank cell). A spreadsheet carries the way it
  displays a number, whether the client pads the rows of an answer to one length
  (\<^verbatim>\<open>pad_values\<close>, on which gspread releases differ), and the worksheet of the
  configured name, if it exists already. Every call is taken to reach the service:
  credentials and transport are outside this development.

  \<^verbatim>\<open>ws.update\<close> stores a text as it is (gspread sends values raw) and a number
  as the spreadsheet displays it. \<^verbatim>\<open>ws.get_values("A1:D2")\<close> answers as the
  service documents: blank cells at the end of a row and blank rows at the end of the
  range are left out.
\<close>

type_synonym worksheet = "nat \<Rightarrow> nat \<Rightarrow> string"

record spreadsheet =
  number_format :: "real \<Rightarrow> string"
  pad_values :: bool
  worksheet_latest :: "worksheet option"

datatype cell_value = Text string | Number real

datatype py_error = ValueError | StreamlitAPIException

fun render :: "(real \<Rightarrow> string) \<Rightarrow> cell_value \<Rightarrow> string" where
  "render fmt (Text s) = s"
| "render fmt (Number x) = fmt x"

definition blank_worksheet :: worksheet where
  "blank_worksheet = (\<lambda>r c. [])"

definition ws_update_row :: "(real \<Rightarrow> string) \<Rightarrow> nat \<Rightarrow> cell_value list \<Rightarrow> worksheet \<Rightarrow> worksheet" where
  \<comment> \<open>\<^verbatim>\<open>ws.update\<close> of a one-row range that starts in column A, with one value for
      each column of the range.\<close>
  "ws_update_row fmt r vals w =
     (\<lambda>r' c. if r' = r \<and> c < length vals then render fmt (vals ! c) else w r' c)"

definition strip_trailing_blank :: "string list \<Rightarrow> string list" where
  "strip_trailing_blank xs = rev (dropWhile (\<lambda>s. s = []) (rev xs))"

definition rightpad :: "string list \<Rightarrow> nat \<Rightarrow> string list" where
  "rightpad cells n = cells @ replicate (n - length cells) []"

definition fill_gaps :: "string list list \<Rightarrow> string list list" where
  "fill_gaps L = (let max_cols = foldr max (map length L) 0 in map (\<lambda>cells. rightpad cells max_cols) L)"

definition ws_get_values_A1_D2 :: "bool \<Rightarrow> worksheet \<Rightarrow> string list list" where
  "ws_get_values_A1_D2 pad w =
     (let row = (\<lambda>r. strip_trailing_blank [w r 0, w r 1, w r 2, w r 3]);
          answer = rev (dropWhile (\<lambda>cells. cells = []) (rev [row 0, row 1]))
      in if pad then fill_gaps answer else answer)"

definition HEADER :: "string list" where
  \<comment> \<open>The list of column names written at lines 33 and 40.\<close>
  "HEADER = [''timestamp_utc'', ''current_assets'', ''current_liabilities'', ''inventory'']"

definition open_ws :: "spreadsheet \<Rightarrow> worksheet \<times> spreadsheet" where
  \<comment> \<open>The worksheet, created with its header row when the spreadsheet has none.\<close>
  "open_ws ss =
     (case worksheet_latest ss of
        Some ws \<Rightarrow> (ws, ss)
      | None \<Rightarrow>
          (let ws = blank_worksheet;
               ws = ws_update_row (number_format ss) 0 (map Text HEADER) ws
           in (ws, ss\<lparr>worksheet_latest := Some ws\<rparr>)))"

definition write_single_row :: "snapshot \<Rightarrow> spreadsheet \<Rightarrow> spreadsheet" where
  "write_single_row record ss =
     (let (ws, ss) = open_ws ss;
          ws = ws_update_row (number_format ss) 0 (map Text HEADER) ws;
          ws = ws_update_row (number_format ss) 1
                 [Text (timestamp_utc record),
                  Number (current_assets record),
                  Number (current_liabilities record),
                  Number (inventory record)] ws
      in ss\<lparr>worksheet_latest := Some ws\<rparr>)"

text \<open>
  A data frame of one row: its column labels and the row's values.
  \<^verbatim>\<open>pd.DataFrame([row], columns=labels)\<close> raises \<^verbatim>\<open>ValueError\<close> when the two
  lengths differ.
\<close>

record data_frame =
  columns :: "string list"
  row0 :: "string list"

definition DataFrame :: "string list \<Rightarrow> string list \<Rightarrow> py_error + data_frame" where
  "DataFrame row labels =
     (if length labels \<noteq> length row then Inl ValueError
      else Inr \<lparr> columns = labels, row0 = row \<rparr>)"

definition frame_get :: "data_frame \<Rightarrow> string \<Rightarrow> string option" where
  \<comment> \<open>\<^verbatim>\<open>latest.iloc[0][label]\<close> for column labels that differ from each other;
      \<open>None\<close> where pandas raises \<^verbatim>\<open>KeyError\<close>.\<close>
  "frame_get df label = map_of (zip (columns df) (row0 df)) label"

definition read_latest_of :: "string list list \<Rightarrow> py_error + data_frame option" where
  \<comment> \<open>What \<^verbatim>\<open>read_latest\<close> makes of the answer \<open>data\<close> of the service.\<close>
  "read_latest_of data =
     (if length data < 2 then Inr None
      else if length (data ! 1) < 4 then Inr None
      else map_sum id Some (DataFrame (data ! 1) (data ! 0)))"

definition read_latest :: "spreadsheet \<Rightarrow> (py_error + data_frame option) \<times> spreadsheet" where
  "read_latest ss =
     (let (ws, ss) = open_ws ss;
          data = ws_get_values_A1_D2 (pad_values ss) ws
      in (read_latest_of data, ss))"

section \<open>Timing and the generation step\<close>

text \<open>
  \<^verbatim>\<open>st.session_state\<close> holds one number, initialised to \<open>0.0\<close> when a session
  starts (lines 78 and 79).
\<close>

record session_state =
  last_generate_ts :: real

definition new_session :: session_state where
  "new_session = \<lparr> last_generate_ts = 0 \<rparr>"

definition due :: "session_state \<Rightarrow> real \<Rightarrow> bool" where
  "due st now = (of_int INTERVAL_SECONDS \<le> now - last_generate_ts st)"

record page_state =
  session :: session_state
  sheets :: spreadsheet

definition generate_if_due ::
  "bool \<Rightarrow> real \<Rightarrow> rng_draws \<Rightarrow> string \<Rightarrow> page_state \<Rightarrow> page_state" where
  \<comment> \<open>Lines 91 to 94; \<open>manual\<close> is the value of the button, \<open>now\<close> of \<^verbatim>\<open>time.time()\<close>.\<close>
  "generate_if_due manual now rng stamp p =
     (if manual \<or> due (session p) now then
        (let rec = generate_plausible_values rng stamp;
             ss = write_single_row rec (sheets p)
         in p\<lparr> sheets := ss, session := (session p)\<lparr>last_generate_ts := now\<rparr> \<rparr>)
      else p)"

text \<open>
  Lines 114 to 117, at the clock reading \<open>t\<close>. \<^verbatim>\<open>st.progress\<close> refuses a float
  outside the unit interval.
\<close>

record countdown_view =
  remaining_shown :: int
  progress_shown :: real

definition remaining :: "session_state \<Rightarrow> real \<Rightarrow> int" where
  "remaining st t =
     (let elapsed = t - last_generate_ts st
      in py_max 0 (INTERVAL_SECONDS - py_int elapsed))"

definition progress_value :: "int \<Rightarrow> real" where
  "progress_value rem =
     (if INTERVAL_SECONDS \<noteq> 0 then 1 - of_int rem / of_int INTERVAL_SECONDS else 1)"

definition st_progress :: "real \<Rightarrow> py_error + real" where
  "st_progress v = (if 0 \<le> v \<and> v \<le> 1 then Inr v else Inl StreamlitAPIException)"

definition render_countdown :: "session_state \<Rightarrow> real \<Rightarrow> py_error + countdown_view" where
  "render_countdown st t =
     (let rem = remaining st t
      in case st_progress (progress_value rem) of
           Inl e \<Rightarrow> Inl e
         | Inr v \<Rightarrow> Inr \<lparr> remaining_shown = rem, progress_shown = v \<rparr>)"

section \<open>What the properties speak of\<close>

definition at_most_2_decimals :: "real \<Rightarrow> bool" where
  \<comment> \<open>The number is a whole number of hundredths.\<close>
  "at_most_2_decimals x = (of_int \<lfloor>x * 100\<rfloor> = x * 100)"



section \<open>Rounding, clipping and the two clamps\<close>

lemma round_half_even_lower: "y - 1 / 2 \<le> of_int (round_half_even y)"
  unfolding round_half_even_def Let_def by (auto; linarith)

lemma round_half_even_upper: "of_int (round_half_even y) \<le> y + 1 / 2"
  unfolding round_half_even_def Let_def by (auto; linarith)

lemma round_half_even_mono:
  assumes "x \<le> y"
  shows "round_half_even x \<le> round_half_even y"
proof (rule ccontr)
  assume gt: "\<not> round_half_even x \<le> round_half_even y"
  then have "round_half_even y + 1 \<le> round_half_even x" by simp
  then have "real_of_int (round_half_even y) + 1 \<le> of_int (round_half_even x)"
    by linarith
  with round_half_even_lower [of y] round_half_even_upper [of x] assms
  have "x = y" by linarith
  with gt show False by simp
qed

lemma round_half_even_of_int: "round_half_even (of_int k) = k"
  by (simp add: round_half_even_def)

lemma py_round_mono: "x \<le> y \<Longrightarrow> py_round x n \<le> py_round y n"
  unfolding py_round_def
  by (intro divide_right_mono) (auto intro!: round_half_even_mono mult_right_mono)

lemma py_round_cents: "py_round (of_int k / 100) 2 = of_int k / 100"
  by (simp add: py_round_def round_half_even_of_int)

lemma py_round_50000: "py_round 50000 2 = 50000"
  using py_round_cents [of 5000000] by simp

lemma py_round_250000: "py_round 250000 2 = 250000"
  using py_round_cents [of 25000000] by simp

lemma py_round_5000: "py_round 5000 2 = 5000"
  using py_round_cents [of 500000] by simp

lemma py_round_1: "py_round 1 2 = 1"
  using py_round_cents [of 100] by simp

lemma py_round_2_decimals: "at_most_2_decimals (py_round x 2)"
  by (simp add: at_most_2_decimals_def py_round_def)

lemma np_clip_bounds: "lo \<le> hi \<Longrightarrow> lo \<le> np_clip x lo hi \<and> np_clip x lo hi \<le> hi"
  by (simp add: np_clip_def py_min_def py_max_def)

lemma py_min_le: "py_min a b \<le> a" "py_min a b \<le> (b::real)"
  by (simp_all add: py_min_def)

lemma py_max_ge: "a \<le> py_max a b" "(b::real) \<le> py_max a b"
  by (simp_all add: py_max_def)

lemma generated_fields:
  "current_assets (generate_plausible_values rng stamp) =
     py_round (np_clip (lognormal_draw rng) 50000 250000) 2"
  "inventory (generate_plausible_values rng stamp) =
     py_round (py_min (inv_prop_draw rng * np_clip (lognormal_draw rng) 50000 250000)
                 (np_clip (lognormal_draw rng) 50000 250000)) 2"
  "current_liabilities (generate_plausible_values rng stamp) =
     py_round (py_max (cl_prop_draw rng * np_clip (lognormal_draw rng) 50000 250000) 1) 2"
  "timestamp_utc (generate_plausible_values rng stamp) = stamp"
  by (simp_all add: generate_plausible_values_def Let_def)

section \<open>The sampler\<close>

text \<open>
  Claim C1. Whatever the random source hands back within NumPy's contract, the
  snapshot has current assets between 50,000 and 250,000, an inventory that is
  positive and at most the current assets, and current liabilities of at least 1.
  The function has no failing branch.
\<close>

theorem generate_plausible_values_ranges:
  assumes "valid_draws rng"
  shows "50000 \<le> current_assets (generate_plausible_values rng stamp)
       \<and> current_assets (generate_plausible_values rng stamp) \<le> 250000
       \<and> 0 < inventory (generate_plausible_values rng stamp)
       \<and> inventory (generate_plausible_values rng stamp)
           \<le> current_assets (generate_plausible_values rng stamp)
       \<and> 1 \<le> current_liabilities (generate_plausible_values rng stamp)"
proof -
  define ca where "ca = np_clip (lognormal_draw rng) 50000 250000"
  have ca: "50000 \<le> ca" "ca \<le> 250000"
    using np_clip_bounds [of 50000 250000 "lognormal_draw rng"] by (simp_all add: ca_def)
  have p: "1 / 10 \<le> inv_prop_draw rng"
    using assms by (simp add: valid_draws_def uniform_range_def)
  have "5000 \<le> inv_prop_draw rng * ca"
    using mult_mono [of "1 / 10" "inv_prop_draw rng" 50000 ca] p ca by simp
  then have "5000 \<le> py_min (inv_prop_draw rng * ca) ca"
    using ca by (simp add: py_min_def)
  then have "py_round 5000 2 \<le> py_round (py_min (inv_prop_draw rng * ca) ca) 2"
    by (rule py_round_mono)
  then have inv_pos: "0 < py_round (py_min (inv_prop_draw rng * ca) ca) 2"
    by (simp add: py_round_5000)
  have inv_le: "py_round (py_min (inv_prop_draw rng * ca) ca) 2 \<le> py_round ca 2"
    by (rule py_round_mono) (rule py_min_le)
  have lo: "50000 \<le> py_round ca 2"
    using py_round_mono [OF ca(1), of 2] by (simp add: py_round_50000)
  have hi: "py_round ca 2 \<le> 250000"
    using py_round_mono [OF ca(2), of 2] by (simp add: py_round_250000)
  have cl: "1 \<le> py_round (py_max (cl_prop_draw rng * ca) 1) 2"
    using py_round_mono [OF py_max_ge(2) [of 1 "cl_prop_draw rng * ca"], of 2]
    by (simp add: py_round_1)
  show ?thesis
    unfolding generated_fields ca_def [symmetric] using lo hi inv_pos inv_le cl by simp
qed

theorem generate_plausible_values_ranges_witness:
  "valid_draws \<lparr> lognormal_draw = 60000, inv_prop_draw = 1 / 2, cl_prop_draw = 1 \<rparr>
   \<and> 50000 \<le> current_assets (generate_plausible_values
        \<lparr> lognormal_draw = 60000, inv_prop_draw = 1 / 2, cl_prop_draw = 1 \<rparr> ''2026-01-01T00:00:00+00:00'')
   \<and> current_assets (generate_plausible_values
        \<lparr> lognormal_draw = 60000, inv_prop_draw = 1 / 2, cl_prop_draw = 1 \<rparr> ''2026-01-01T00:00:00+00:00'') \<le> 250000
   \<and> 0 < inventory (generate_plausible_values
        \<lparr> lognormal_draw = 60000, inv_prop_draw = 1 / 2, cl_prop_draw = 1 \<rparr> ''2026-01-01T00:00:00+00:00'')
   \<and> inventory (generate_plausible_values
        \<lparr> lognormal_draw = 60000, inv_prop_draw = 1 / 2, cl_prop_draw = 1 \<rparr> ''2026-01-01T00:00:00+00:00'')
       \<le> current_assets (generate_plausible_values
        \<lparr> lognormal_draw = 60000, inv_prop_draw = 1 / 2, cl_prop_draw = 1 \<rparr> ''2026-01-01T00:00:00+00:00'')
   \<and> 1 \<le> current_liabilities (generate_plausible_values
        \<lparr> lognormal_draw = 60000, inv_prop_draw = 1 / 2, cl_prop_draw = 1 \<rparr> ''2026-01-01T00:00:00+00:00'')"
  using generate_plausible_values_ranges
    [of "\<lparr> lognormal_draw = 60000, inv_prop_draw = 1 / 2, cl_prop_draw = 1 \<rparr>"
        "''2026-01-01T00:00:00+00:00''"]
  by (simp add: valid_draws_def uniform_range_def)

text \<open>
  Claim C5. Each of the three monetary fields of a generated snapshot is rounded to
  2 decimal places: it is a whole number of hundredths.
\<close>

theorem generated_fields_two_decimals:
  "at_most_2_decimals (current_assets (generate_plausible_values rng stamp))
   \<and> at_most_2_decimals (current_liabilities (generate_plausible_values rng stamp))
   \<and> at_most_2_decimals (inventory (generate_plausible_values rng stamp))"
  unfolding generated_fields by (simp add: py_round_2_decimals)

text \<open>
  Claim C7. For every sampled value of the current assets and every draw of the
  inventory proportion, inside its range or not, the final inventory is at most the
  current assets, and it is at most what it would be without the cap: the cap lowers
  and never raises. With assets sampled at 200,000 and a proportion of 0.80 the
  inventory is 160,000; with a proportion of 1.50 the cap holds it at 200,000.
\<close>

theorem inventory_cap_never_raises:
  "inventory (generate_plausible_values rng stamp)
     \<le> current_assets (generate_plausible_values rng stamp)
   \<and> inventory (generate_plausible_values rng stamp)
       \<le> py_round (inv_prop_draw rng * np_clip (lognormal_draw rng) 50000 250000) 2
   \<and> current_assets (generate_plausible_values
        \<lparr> lognormal_draw = 200000, inv_prop_draw = 80 / 100, cl_prop_draw = c \<rparr> stamp) = 200000
   \<and> inventory (generate_plausible_values
        \<lparr> lognormal_draw = 200000, inv_prop_draw = 80 / 100, cl_prop_draw = c \<rparr> stamp) = 160000
   \<and> inventory (generate_plausible_values
        \<lparr> lognormal_draw = 200000, inv_prop_draw = 150 / 100, cl_prop_draw = c \<rparr> stamp) = 200000"
proof -
  have a: "inventory (generate_plausible_values rng stamp)
      \<le> current_assets (generate_plausible_values rng stamp)"
    unfolding generated_fields by (rule py_round_mono) (rule py_min_le)
  have b: "inventory (generate_plausible_values rng stamp)
      \<le> py_round (inv_prop_draw rng * np_clip (lognormal_draw rng) 50000 250000) 2"
    unfolding generated_fields by (rule py_round_mono) (rule py_min_le)
  have c: "current_assets (generate_plausible_values
      \<lparr> lognormal_draw = 200000, inv_prop_draw = 80 / 100, cl_prop_draw = c \<rparr> stamp) = 200000"
    using py_round_cents [of 20000000]
    by (simp add: generated_fields np_clip_def py_min_def py_max_def)
  have d: "inventory (generate_plausible_values
      \<lparr> lognormal_draw = 200000, inv_prop_draw = 80 / 100, cl_prop_draw = c \<rparr> stamp) = 160000"
    using py_round_cents [of 16000000]
    by (simp add: generated_fields np_clip_def py_min_def py_max_def)
  have e: "inventory (generate_plausible_values
      \<lparr> lognormal_draw = 200000, inv_prop_draw = 150 / 100, cl_prop_draw = c \<rparr> stamp) = 200000"
    using py_round_cents [of 20000000]
    by (simp add: generated_fields np_clip_def py_min_def py_max_def)
  from a b c d e show ?thesis by simp
qed

text \<open>
  Claim C10. On values drawn within NumPy's contract the two final clamps change
  nothing: the current assets are at least 50,000, the inventory proportion is below
  0.60 and the liabilities proportion at least 0.30, so the inventory before the cap
  is already at most the current assets and the liabilities before the floor are
  already at least 1. The snapshot is the one computed without the two clamps.
\<close>

theorem final_clamps_are_no_ops:
  assumes "valid_draws rng"
  shows "py_min (inv_prop_draw rng * np_clip (lognormal_draw rng) 50000 250000)
           (np_clip (lognormal_draw rng) 50000 250000)
         = inv_prop_draw rng * np_clip (lognormal_draw rng) 50000 250000
       \<and> py_max (cl_prop_draw rng * np_clip (lognormal_draw rng) 50000 250000) 1
         = cl_prop_draw rng * np_clip (lognormal_draw rng) 50000 250000
       \<and> generate_plausible_values rng stamp =
           \<lparr> timestamp_utc = stamp,
             current_assets = py_round (np_clip (lognormal_draw rng) 50000 250000) 2,
             current_liabilities =
               py_round (cl_prop_draw rng * np_clip (lognormal_draw rng) 50000 250000) 2,
             inventory =
               py_round (inv_prop_draw rng * np_clip (lognormal_draw rng) 50000 250000) 2 \<rparr>"
proof -
  define ca where "ca = np_clip (lognormal_draw rng) 50000 250000"
  have ca: "50000 \<le> ca"
    using np_clip_bounds [of 50000 250000 "lognormal_draw rng"] by (simp add: ca_def)
  have p: "inv_prop_draw rng \<le> 1" "3 / 10 \<le> cl_prop_draw rng"
    using assms by (simp_all add: valid_draws_def uniform_range_def)
  have "inv_prop_draw rng * ca \<le> 1 * ca"
    using p(1) ca by (intro mult_right_mono) simp_all
  then have i: "py_min (inv_prop_draw rng * ca) ca = inv_prop_draw rng * ca"
    by (simp add: py_min_def)
  have "3 / 10 * 50000 \<le> cl_prop_draw rng * ca"
    using p(2) ca by (intro mult_mono) simp_all
  then have l: "py_max (cl_prop_draw rng * ca) 1 = cl_prop_draw rng * ca"
    by (simp add: py_max_def)
  show ?thesis
    unfolding ca_def [symmetric]
    using i l by (simp add: generate_plausible_values_def Let_def ca_def [symmetric])
qed

theorem final_clamps_are_no_ops_witness:
  "valid_draws \<lparr> lognormal_draw = 60000, inv_prop_draw = 1 / 2, cl_prop_draw = 1 \<rparr>
   \<and> py_min (1 / 2 * (60000::real)) 60000 = 1 / 2 * 60000
   \<and> py_max (1 * (60000::real)) 1 = 1 * 60000
   \<and> generate_plausible_values
        \<lparr> lognormal_draw = 60000, inv_prop_draw = 1 / 2, cl_prop_draw = 1 \<rparr> ''t''
      = \<lparr> timestamp_utc = ''t'', current_assets = py_round 60000 2,
          current_liabilities = py_round 60000 2, inventory = py_round 30000 2 \<rparr>"
  using final_clamps_are_no_ops
    [of "\<lparr> lognormal_draw = 60000, inv_prop_draw = 1 / 2, cl_prop_draw = 1 \<rparr>" "''t''"]
  by (simp add: valid_draws_def uniform_range_def np_clip_def py_min_def py_max_def)

section \<open>The timing gate and the generation step\<close>

text \<open>
  Claim C2. The gate is open exactly when the time since the last generation is at
  least the interval, which the page fixes at 30 seconds: it is closed below the
  interval and open at the boundary. With the last generation at 0 it is open at 30,
  and with the last generation at 100 it is closed at 120.
\<close>

theorem due_iff_interval_elapsed:
  "due st now = (of_int INTERVAL_SECONDS \<le> now - last_generate_ts st)
   \<and> INTERVAL_SECONDS = 30
   \<and> due (st\<lparr>last_generate_ts := now - of_int INTERVAL_SECONDS\<rparr>) now
   \<and> due \<lparr>last_generate_ts = 0\<rparr> 30
   \<and> \<not> due \<lparr>last_generate_ts = 100\<rparr> 120"
  by (simp add: due_def INTERVAL_SECONDS_def)

text \<open>
  Claim C6. When the manual trigger fired, or the gate is open, the step writes a
  freshly generated snapshot to the store and sets the time of the last generation to
  \<open>now\<close>. The manual trigger needs no elapsed time: the witness fires it 5 seconds
  after the last generation, with the gate closed.
\<close>

theorem manual_or_due_generates:
  assumes "manual \<or> due (session p) now"
  shows "sheets (generate_if_due manual now rng stamp p)
           = write_single_row (generate_plausible_values rng stamp) (sheets p)
       \<and> last_generate_ts (session (generate_if_due manual now rng stamp p)) = now"
  using assms by (simp add: generate_if_due_def Let_def)

theorem manual_or_due_generates_witness:
  "\<not> due \<lparr>last_generate_ts = 100\<rparr> 105
   \<and> sheets (generate_if_due True 105
        \<lparr> lognormal_draw = 60000, inv_prop_draw = 1 / 2, cl_prop_draw = 1 \<rparr> ''t''
        \<lparr> session = \<lparr>last_generate_ts = 100\<rparr>,
          sheets = \<lparr> number_format = (\<lambda>x. ''n''), pad_values = False,
                     worksheet_latest = None \<rparr> \<rparr>)
      = write_single_row (generate_plausible_values
          \<lparr> lognormal_draw = 60000, inv_prop_draw = 1 / 2, cl_prop_draw = 1 \<rparr> ''t'')
          \<lparr> number_format = (\<lambda>x. ''n''), pad_values = False, worksheet_latest = None \<rparr>
   \<and> last_generate_ts (session (generate_if_due True 105
        \<lparr> lognormal_draw = 60000, inv_prop_draw = 1 / 2, cl_prop_draw = 1 \<rparr> ''t''
        \<lparr> session = \<lparr>last_generate_ts = 100\<rparr>,
          sheets = \<lparr> number_format = (\<lambda>x. ''n''), pad_values = False,
                     worksheet_latest = None \<rparr> \<rparr>)) = 105"
  using manual_or_due_generates
    [of True "\<lparr> session = \<lparr>last_generate_ts = 100\<rparr>,
               sheets = \<lparr> number_format = (\<lambda>x. ''n''), pad_values = False,
                          worksheet_latest = None \<rparr> \<rparr>" 105
        "\<lparr> lognormal_draw = 60000, inv_prop_draw = 1 / 2, cl_prop_draw = 1 \<rparr>" "''t''"]
  by (simp add: due_def INTERVAL_SECONDS_def)

lemma generate_if_due_idle:
  "\<not> manual \<Longrightarrow> \<not> due (session p) now \<Longrightarrow> generate_if_due manual now rng stamp p = p"
  by (simp add: generate_if_due_def)

section \<open>The countdown\<close>

lemma render_countdown_succeeds:
  assumes "last_generate_ts st \<le> t"
  shows "render_countdown st t =
           Inr \<lparr> remaining_shown = remaining st t,
                 progress_shown = progress_value (remaining st t) \<rparr>"
proof -
  have "0 \<le> py_int (t - last_generate_ts st)"
    using assms by (simp add: py_int_def)
  then have "0 \<le> remaining st t" "remaining st t \<le> INTERVAL_SECONDS"
    by (simp_all add: remaining_def Let_def py_max_def INTERVAL_SECONDS_def)
  then have "0 \<le> progress_value (remaining st t)" "progress_value (remaining st t) \<le> 1"
    by (simp_all add: progress_value_def INTERVAL_SECONDS_def)
  then show ?thesis
    by (simp add: render_countdown_def Let_def st_progress_def)
qed

text \<open>
  Claim C9. Whenever the countdown is rendered, the progress indicator shows 1 minus
  the remaining seconds over the interval, the remaining seconds being the countdown
  written above it.
\<close>

theorem progress_is_one_minus_remaining_fraction:
  assumes "render_countdown st t = Inr v"
  shows "progress_shown v = 1 - of_int (remaining_shown v) / of_int INTERVAL_SECONDS
       \<and> remaining_shown v = remaining st t"
  using assms
  by (auto simp add: render_countdown_def Let_def st_progress_def progress_value_def
      INTERVAL_SECONDS_def split: if_splits)

theorem progress_is_one_minus_remaining_fraction_witness:
  "render_countdown \<lparr>last_generate_ts = 100\<rparr> 112
     = Inr \<lparr>remaining_shown = 18, progress_shown = 2 / 5\<rparr>
   \<and> progress_shown \<lparr>remaining_shown = 18, progress_shown = 2 / 5\<rparr>
       = 1 - of_int (remaining_shown \<lparr>remaining_shown = 18, progress_shown = 2 / 5\<rparr>)
             / of_int INTERVAL_SECONDS
   \<and> remaining_shown \<lparr>remaining_shown = 18, progress_shown = 2 / 5\<rparr>
       = remaining \<lparr>last_generate_ts = 100\<rparr> 112"
proof -
  have r: "render_countdown \<lparr>last_generate_ts = 100\<rparr> 112
      = Inr \<lparr>remaining_shown = 18, progress_shown = 2 / 5\<rparr>"
    by (simp add: render_countdown_def remaining_def py_int_def py_max_def
        progress_value_def st_progress_def INTERVAL_SECONDS_def Let_def)
  from progress_is_one_minus_remaining_fraction [OF r] r show ?thesis by simp
qed

section \<open>The store\<close>

lemma open_ws_idem: "open_ws (snd (open_ws ss)) = open_ws ss"
  by (simp add: open_ws_def Let_def split: option.splits)

lemma read_latest_snd: "snd (read_latest ss) = snd (open_ws ss)"
  by (simp add: read_latest_def Let_def case_prod_beta)

lemma open_ws_pad_values: "pad_values (snd (open_ws ss)) = pad_values ss"
  by (simp add: open_ws_def Let_def split: option.splits)

lemma read_latest_fst:
  "fst (read_latest ss) =
     read_latest_of (ws_get_values_A1_D2 (pad_values ss) (fst (open_ws ss)))"
  by (simp add: read_latest_def Let_def case_prod_beta open_ws_pad_values)

lemma strip_trailing_blank_keeps:
  "xs \<noteq> [] \<Longrightarrow> last xs \<noteq> [] \<Longrightarrow> strip_trailing_blank xs = xs"
  by (cases xs rule: rev_cases) (simp_all add: strip_trailing_blank_def)

lemma strip_trailing_blank_HEADER: "strip_trailing_blank HEADER = HEADER"
  by (rule strip_trailing_blank_keeps) (simp_all add: HEADER_def)


lemma fill_gaps_same_width: "length a = length b \<Longrightarrow> fill_gaps [a, b] = [a, b]"
  by (simp add: fill_gaps_def rightpad_def)

lemma written_worksheet: "\<exists>w. worksheet_latest (write_single_row S ss) = Some w"
  by (simp add: write_single_row_def Let_def case_prod_beta)

lemma written_pad_values: "pad_values (write_single_row S ss) = pad_values ss"
  by (simp add: write_single_row_def Let_def case_prod_beta open_ws_pad_values)

lemma written_cells:
  assumes "worksheet_latest (write_single_row S ss) = Some w"
  shows "[w 0 0, w 0 1, w 0 2, w 0 3] = HEADER"
    and "[w 1 0, w 1 1, w 1 2, w 1 3] =
           [timestamp_utc S, number_format ss (current_assets S),
            number_format ss (current_liabilities S), number_format ss (inventory S)]"
  using assms
  by (auto simp add: write_single_row_def open_ws_def Let_def ws_update_row_def HEADER_def
      split: option.splits)



text \<open>
  Claim C3. Writing a snapshot and reading the store back gives the frame whose
  columns are the four header names and whose row holds the snapshot's timestamp and
  its three amounts as the spreadsheet displays them, provided the spreadsheet
  displays the inventory as a text that is not blank. Each field, looked up by its
  name, is the snapshot's field up to that display.
\<close>

theorem write_then_read_round_trip:
  assumes "number_format ss (inventory S) \<noteq> []"
  shows "(let df = \<lparr> columns = HEADER,
                    row0 = [timestamp_utc S, number_format ss (current_assets S),
                            number_format ss (current_liabilities S),
                            number_format ss (inventory S)] \<rparr>
          in fst (read_latest (write_single_row S ss)) = Inr (Some df)
           \<and> frame_get df ''timestamp_utc'' = Some (timestamp_utc S)
           \<and> frame_get df ''current_assets'' = Some (number_format ss (current_assets S))
           \<and> frame_get df ''current_liabilities''
               = Some (number_format ss (current_liabilities S))
           \<and> frame_get df ''inventory'' = Some (number_format ss (inventory S)))"
proof -
  obtain w where w: "worksheet_latest (write_single_row S ss) = Some w"
    using written_worksheet by blast
  define r where "r = [timestamp_utc S, number_format ss (current_assets S),
        number_format ss (current_liabilities S), number_format ss (inventory S)]"
  have cells: "[w 0 0, w 0 1, w 0 2, w 0 3] = HEADER" "[w 1 0, w 1 1, w 1 2, w 1 3] = r"
    using written_cells [OF w] by (simp_all add: r_def)
  have sr: "strip_trailing_blank r = r"
    by (rule strip_trailing_blank_keeps) (simp_all add: r_def assms)
  have len: "length r = 4" "length HEADER = 4" "r \<noteq> []"
    by (simp_all add: r_def HEADER_def)
  have ans: "ws_get_values_A1_D2 pad w = [HEADER, r]" for pad
    unfolding ws_get_values_A1_D2_def Let_def cells strip_trailing_blank_HEADER sr
    using len by (simp add: fill_gaps_same_width)
  have "open_ws (write_single_row S ss) = (w, write_single_row S ss)"
    using w by (simp add: open_ws_def)
  then have "fst (read_latest (write_single_row S ss)) = read_latest_of [HEADER, r]"
    by (simp add: read_latest_def Let_def ans)
  also have "\<dots> = Inr (Some \<lparr> columns = HEADER, row0 = r \<rparr>)"
    using len by (simp add: read_latest_of_def DataFrame_def)
  finally have "fst (read_latest (write_single_row S ss))
      = Inr (Some \<lparr> columns = HEADER, row0 = r \<rparr>)" .
  then show ?thesis
    by (simp add: r_def Let_def frame_get_def HEADER_def)
qed

theorem write_then_read_round_trip_witness:
  "number_format
     \<lparr> number_format = (\<lambda>x. if x = 0 then ''0'' else ''n''), pad_values = False,
       worksheet_latest = None \<rparr>
     (inventory \<lparr> timestamp_utc = ''t'', current_assets = 3, current_liabilities = 2,
                  inventory = 0 \<rparr>) \<noteq> []
   \<and> fst (read_latest (write_single_row
        \<lparr> timestamp_utc = ''t'', current_assets = 3, current_liabilities = 2, inventory = 0 \<rparr>
        \<lparr> number_format = (\<lambda>x. if x = 0 then ''0'' else ''n''), pad_values = False,
          worksheet_latest = None \<rparr>))
      = Inr (Some \<lparr> columns = HEADER, row0 = [''t'', ''n'', ''n'', ''0''] \<rparr>)"
  using write_then_read_round_trip
    [of "\<lparr> number_format = (\<lambda>x. if x = 0 then ''0'' else ''n''), pad_values = False,
           worksheet_latest = None \<rparr>"
        "\<lparr> timestamp_utc = ''t'', current_assets = 3, current_liabilities = 2,
           inventory = 0 \<rparr>"]
  by (simp add: Let_def)





text \<open>
  Claim C8. A second \<^verbatim>\<open>read_latest\<close> with no write in between returns what the
  first returned, and leaves the store as the first left it.
\<close>

theorem read_latest_idempotent:
  "fst (read_latest (snd (read_latest ss))) = fst (read_latest ss)
   \<and> snd (read_latest (snd (read_latest ss))) = snd (read_latest ss)"
  by (simp add: read_latest_fst read_latest_snd open_ws_idem open_ws_pad_values)

end
